theory Spec2Isabelle
  imports Complex_Main "HOL-Library.Word"
begin

section \<open>JavaScript values\<close>

text \<open>
  A JavaScript string is a sequence of UTF-16 code units: \<open>length\<close> and \<open>slice\<close> count
  code units. String literals of the source are written \<open>js ''...''\<close>.
\<close>

type_synonym jsstring = "16 word list"

definition js :: "string \<Rightarrow> jsstring" where
  "js s = map (\<lambda>c. of_nat (of_char c)) s"

text \<open>The character U+2026, the source's literal \<^verbatim>\<open>'...'\<close> written as one character.\<close>

definition ellipsis :: jsstring where
  "ellipsis = [0x2026]"

text \<open>
  Values that \<open>JSON.parse\<close> can produce, and \<open>undefined\<close>. None of the code computes with a
  number it takes from JSON, so numbers are carried as reals.
\<close>

datatype jsval =
    JUndefined
  | JNull
  | JBool bool
  | JNum real
  | JStr jsstring
  | JArr "jsval list"
  | JObj "(jsstring \<times> jsval) list"

datatype js_error =
    Error jsstring
  | TypeError jsstring
  | URIError jsstring
  | SyntaxError jsstring

text \<open>Sequencing of steps that may throw: the first error ends the evaluation.\<close>

definition and_then :: "'e + 'a \<Rightarrow> ('a \<Rightarrow> 'e + 'b) \<Rightarrow> 'e + 'b" where
  "and_then r f = (case r of Inl e \<Rightarrow> Inl e | Inr v \<Rightarrow> f v)"

text \<open>\<open>Array.prototype.join\<close> with the default separator, on converted elements.\<close>

fun join_comma :: "jsstring list \<Rightarrow> jsstring" where
  "join_comma [] = []"
| "join_comma [s] = s"
| "join_comma (s # t # ts) = s @ js '','' @ join_comma (t # ts)"

text \<open>
  The abstract operation ToString. \<open>Number::toString\<close> is the parameter \<open>nf\<close>; an array
  converts by \<open>join\<close>, where \<open>undefined\<close> and \<open>null\<close> elements give the empty string.
\<close>

fun ToString :: "(real \<Rightarrow> jsstring) \<Rightarrow> jsval \<Rightarrow> jsstring" where
  "ToString nf JUndefined = js ''undefined''"
| "ToString nf JNull = js ''null''"
| "ToString nf (JBool b) = (if b then js ''true'' else js ''false'')"
| "ToString nf (JNum x) = nf x"
| "ToString nf (JStr s) = s"
| "ToString nf (JArr xs) =
     join_comma (map (\<lambda>v. if v = JUndefined \<or> v = JNull then [] else ToString nf v) xs)"
| "ToString nf (JObj kvs) = js ''[object Object]''"

text \<open>\<open>v + s\<close> for a string \<open>s\<close>: the left operand is converted and the two are concatenated.\<close>

definition js_plus_str :: "(real \<Rightarrow> jsstring) \<Rightarrow> jsval \<Rightarrow> jsstring \<Rightarrow> jsstring" where
  "js_plus_str nf v s = ToString nf v @ s"

text \<open>
  Property read \<open>v.k\<close> for the keys the handlers read (\<open>id\<close>, \<open>name\<close>, \<open>description\<close>, ...):
  on \<open>undefined\<close> and \<open>null\<close> it throws, an object gives its own property, and no other
  value has a property of such a name.
\<close>

fun get_prop :: "jsval \<Rightarrow> jsstring \<Rightarrow> js_error + jsval" where
  "get_prop JUndefined k = Inl (TypeError (js ''Cannot read properties of undefined''))"
| "get_prop JNull k = Inl (TypeError (js ''Cannot read properties of null''))"
| "get_prop (JObj kvs) k = Inr (case map_of kvs k of None \<Rightarrow> JUndefined | Some v \<Rightarrow> v)"
| "get_prop v k = Inr JUndefined"

section \<open>Strings, bytes and encodings\<close>

text \<open>Decimal digits of a number, as a template literal prints an HTTP status.\<close>

fun dec :: "nat \<Rightarrow> jsstring" where
  "dec n = (if n < 10 then [of_nat (48 + n)] else dec (n div 10) @ [of_nat (48 + n mod 10)])"

declare dec.simps [simp del]

text \<open>Surrogate code units, and the code point of a surrogate pair.\<close>

definition is_high :: "16 word \<Rightarrow> bool" where
  "is_high u = (0xD800 \<le> unat u \<and> unat u \<le> 0xDBFF)"

definition is_low :: "16 word \<Rightarrow> bool" where
  "is_low u = (0xDC00 \<le> unat u \<and> unat u \<le> 0xDFFF)"

definition pair_cp :: "16 word \<Rightarrow> 16 word \<Rightarrow> nat" where
  "pair_cp h l = 0x10000 + (unat h - 0xD800) * 0x400 + (unat l - 0xDC00)"

text \<open>The UTF-8 bytes of one code point.\<close>

definition utf8 :: "nat \<Rightarrow> 8 word list" where
  "utf8 cp =
     (if cp < 0x80 then [of_nat cp]
      else if cp < 0x800 then [of_nat (0xC0 + cp div 64), of_nat (0x80 + cp mod 64)]
      else if cp < 0x10000 then
        [of_nat (0xE0 + cp div 4096), of_nat (0x80 + cp div 64 mod 64), of_nat (0x80 + cp mod 64)]
      else
        [of_nat (0xF0 + cp div 262144), of_nat (0x80 + cp div 4096 mod 64),
         of_nat (0x80 + cp div 64 mod 64), of_nat (0x80 + cp mod 64)])"

text \<open>
  \<open>Buffer.from(s)\<close>: the UTF-8 encoding of a string, a lone surrogate becoming U+FFFD.
\<close>

fun utf8_bytes :: "jsstring \<Rightarrow> 8 word list" where
  "utf8_bytes [] = []"
| "utf8_bytes [u] = (if is_high u \<or> is_low u then utf8 0xFFFD else utf8 (unat u))"
| "utf8_bytes (u # l # us) =
     (if is_high u \<and> is_low l then utf8 (pair_cp u l) @ utf8_bytes us
      else if is_high u \<or> is_low u then utf8 0xFFFD @ utf8_bytes (l # us)
      else utf8 (unat u) @ utf8_bytes (l # us))"

text \<open>
  \<open>buf.toString('base64')\<close>: three bytes give four characters of the standard alphabet,
  and \<open>=\<close> pads the last group.
\<close>

definition b64alphabet :: jsstring where
  "b64alphabet = js ''ABCDEFGHIJKLMNOPQRSTUVWXYZabcdefghijklmnopqrstuvwxyz0123456789+/''"

definition b64char :: "nat \<Rightarrow> 16 word" where
  "b64char n = b64alphabet ! n"

fun base64 :: "8 word list \<Rightarrow> jsstring" where
  "base64 [] = []"
| "base64 [a] = [b64char (unat a div 4), b64char (unat a mod 4 * 16), 61, 61]"
| "base64 [a, b] =
     [b64char (unat a div 4), b64char (unat a mod 4 * 16 + unat b div 16),
      b64char (unat b mod 16 * 4), 61]"
| "base64 (a # b # c # bs) =
     [b64char (unat a div 4), b64char (unat a mod 4 * 16 + unat b div 16),
      b64char (unat b mod 16 * 4 + unat c div 64), b64char (unat c mod 64)] @ base64 bs"

text \<open>
  The inverse reading of base64 text, as the upstream would decode the header: four
  characters give three bytes, and \<open>=\<close> pads the last group.
\<close>

fun index_of :: "'a \<Rightarrow> 'a list \<Rightarrow> nat option" where
  "index_of c [] = None"
| "index_of c (x # xs) = (if c = x then Some 0 else map_option Suc (index_of c xs))"

definition b64index :: "16 word \<Rightarrow> nat option" where
  "b64index c = index_of c b64alphabet"

fun base64_decode :: "jsstring \<Rightarrow> 8 word list option" where
  "base64_decode [] = Some []"
| "base64_decode (a # b # c # d # rest) =
     (case (b64index a, b64index b) of
        (Some i, Some j) \<Rightarrow>
          if c = 61 \<and> d = 61 \<and> rest = [] then Some [of_nat (i * 4 + j div 16)]
          else (case b64index c of
             None \<Rightarrow> None
           | Some k \<Rightarrow>
               if d = 61 \<and> rest = [] then
                 Some [of_nat (i * 4 + j div 16), of_nat (j mod 16 * 16 + k div 4)]
               else (case (b64index d, base64_decode rest) of
                  (Some l, Some bs) \<Rightarrow>
                    Some (of_nat (i * 4 + j div 16) # of_nat (j mod 16 * 16 + k div 4)
                          # of_nat (k mod 4 * 64 + l) # bs)
                | _ \<Rightarrow> None))
      | _ \<Rightarrow> None)"
| "base64_decode cs = None"

text \<open>
  \<open>encodeURIComponent\<close>: letters, digits and \<^verbatim>\<open>-_.!~*'()\<close> are kept, every other character
  becomes the \<open>%XX\<close> escapes of its UTF-8 bytes, and a lone surrogate throws. The index of
  \<open>hex_digit\<close> is below 16, that of \<open>b64char\<close> below 64.
\<close>

definition unescaped :: "16 word \<Rightarrow> bool" where
  "unescaped u =
     (u \<in> set (js ''ABCDEFGHIJKLMNOPQRSTUVWXYZabcdefghijklmnopqrstuvwxyz0123456789-_.!~*'' @
               [0x27] @ js ''()''))"

definition hex_digit :: "nat \<Rightarrow> 16 word" where
  "hex_digit n = js ''0123456789ABCDEF'' ! n"

definition percent :: "8 word \<Rightarrow> jsstring" where
  "percent b = [0x25, hex_digit (unat b div 16), hex_digit (unat b mod 16)]"

fun encodeURIComponent :: "jsstring \<Rightarrow> js_error + jsstring" where
  "encodeURIComponent [] = Inr []"
| "encodeURIComponent [u] =
     (if unescaped u then Inr [u]
      else if is_high u \<or> is_low u then Inl (URIError (js ''URI malformed''))
      else Inr (concat (map percent (utf8 (unat u)))))"
| "encodeURIComponent (u # l # us) =
     (if unescaped u then and_then (encodeURIComponent (l # us)) (\<lambda>r. Inr (u # r))
      else if is_high u \<and> is_low l then
        and_then (encodeURIComponent us) (\<lambda>r. Inr (concat (map percent (utf8 (pair_cp u l))) @ r))
      else if is_high u \<or> is_low u then Inl (URIError (js ''URI malformed''))
      else and_then (encodeURIComponent (l # us)) (\<lambda>r. Inr (concat (map percent (utf8 (unat u))) @ r)))"

text \<open>
  What an encoded component consists of, and the strings on which the encoding returns:
  those in which every surrogate is half of a pair.
\<close>

definition url_safe :: "16 word \<Rightarrow> bool" where
  "url_safe u = (unescaped u \<or> u = 0x25)"

fun well_formed :: "jsstring \<Rightarrow> bool" where
  "well_formed [] = True"
| "well_formed [u] = (\<not> is_high u \<and> \<not> is_low u)"
| "well_formed (u # l # us) =
     (if is_high u then is_low l \<and> well_formed us else \<not> is_low u \<and> well_formed (l # us))"

text \<open>\<open>s.includes(t)\<close>: \<open>t\<close> occurs in \<open>s\<close> as a contiguous substring.\<close>

fun starts_with :: "jsstring \<Rightarrow> jsstring \<Rightarrow> bool" where
  "starts_with s [] = True"
| "starts_with [] (c # t) = False"
| "starts_with (d # s) (c # t) = (d = c \<and> starts_with s t)"

fun js_includes :: "jsstring \<Rightarrow> jsstring \<Rightarrow> bool" where
  "js_includes [] t = (t = [])"
| "js_includes (d # s) t = (starts_with (d # s) t \<or> js_includes s t)"

text \<open>
  Lower case of the letters A to Z. \<open>toLowerCase\<close> maps no character outside ASCII to one
  of \<open>t\<close>, \<open>r\<close>, \<open>u\<close>, \<open>e\<close>, and a case-insensitive route pattern matches an ASCII letter
  only with an ASCII letter, so the comparisons below are those of the source.
\<close>

definition lower :: "16 word \<Rightarrow> 16 word" where
  "lower u = (if 0x41 \<le> unat u \<and> unat u \<le> 0x5A then u + 0x20 else u)"

definition toLowerCase :: "jsstring \<Rightarrow> jsstring" where
  "toLowerCase s = map lower s"

text \<open>Truthiness of a string-or-undefined value, and its conversion in a template literal.\<close>

definition truthy_str :: "jsstring option \<Rightarrow> bool" where
  "truthy_str v = (case v of None \<Rightarrow> False | Some s \<Rightarrow> s \<noteq> [])"

definition template :: "jsstring option \<Rightarrow> jsstring" where
  "template v = (case v of None \<Rightarrow> js ''undefined'' | Some s \<Rightarrow> s)"

section \<open>HTTP requests to the upstream\<close>

text \<open>
  \<open>process.env\<close>: a variable is a string or \<open>undefined\<close>. A header object is the list of
  its entries in insertion order.
\<close>

type_synonym env = "string \<Rightarrow> jsstring option"

type_synonym headers = "(jsstring \<times> jsstring) list"

text \<open>
  The argument of \<open>fetch\<close>. The body is the value handed to \<open>JSON.stringify\<close>, or \<open>None\<close>
  where the source passes no body.
\<close>

record fetch_request =
  fr_url :: jsstring
  fr_method :: jsstring
  fr_headers :: headers
  fr_body :: "jsval option"

text \<open>
  The \<open>Response\<close> that \<open>fetch\<close> resolves to, as far as the clients read it: status, status
  text, \<open>headers.get('content-type')\<close> (\<open>None\<close> for \<open>null\<close>), and what \<open>text()\<close> and \<open>json()\<close>
  resolve to or reject with.
\<close>

record fetch_response =
  rs_status :: nat
  rs_statusText :: jsstring
  rs_content_type :: "jsstring option"
  rs_text :: "js_error + jsstring"
  rs_json :: "js_error + jsval"

definition rs_ok :: "fetch_response \<Rightarrow> bool" where
  "rs_ok res = (200 \<le> rs_status res \<and> rs_status res \<le> 299)"

text \<open>\<open>fetch\<close> itself is a parameter: it answers a request or rejects.\<close>

type_synonym fetcher = "fetch_request \<Rightarrow> js_error + fetch_response"

section \<open>The WooCommerce client of variant A (part\_000)\<close>

definition base :: "env \<Rightarrow> jsstring" where
  "base e = template (e ''WC_URL'') @ js ''/wp-json/wc/v3''"

definition useQueryAuth :: "env \<Rightarrow> bool" where
  "useQueryAuth e =
     (toLowerCase (case e ''WC_AUTH_IN_QUERY'' of None \<Rightarrow> [] | Some s \<Rightarrow> s) = js ''true'')"

definition authHeaders :: "env \<Rightarrow> headers" where
  "authHeaders e =
     [(js ''Content-Type'', js ''application/json'')] @
     (if \<not> useQueryAuth e then
        [(js ''Authorization'',
          js ''Basic '' @
          base64 (utf8_bytes (template (e ''WC_KEY'') @ js '':'' @ template (e ''WC_SECRET''))))]
      else [])"

definition withAuth :: "env \<Rightarrow> jsstring \<Rightarrow> js_error + jsstring" where
  "withAuth e path =
     (if \<not> useQueryAuth e then Inr (base e @ path)
      else
        let sep = (if js_includes path (js ''?'') then js ''&'' else js ''?'') in
        and_then (encodeURIComponent (template (e ''WC_KEY''))) (\<lambda>k.
        and_then (encodeURIComponent (template (e ''WC_SECRET''))) (\<lambda>s.
          Inr (base e @ path @ (sep @ js ''consumer_key='' @ k) @ (js ''&consumer_secret='' @ s)))))"

text \<open>Truthiness of a value, for \<^verbatim>\<open>body ? JSON.stringify(body) : undefined\<close>.\<close>

fun truthy :: "jsval \<Rightarrow> bool" where
  "truthy JUndefined = False"
| "truthy JNull = False"
| "truthy (JBool b) = b"
| "truthy (JNum x) = (x \<noteq> 0)"
| "truthy (JStr s) = (s \<noteq> [])"
| "truthy v = True"

definition wc :: "fetcher \<Rightarrow> env \<Rightarrow> jsstring \<Rightarrow> jsstring \<Rightarrow> jsval \<Rightarrow> js_error + jsval" where
  "wc fetch e path method body =
     and_then (withAuth e path) (\<lambda>url.
     and_then (fetch \<lparr>fr_url = url, fr_method = method, fr_headers = authHeaders e,
                      fr_body = (if truthy body then Some body else None)\<rparr>) (\<lambda>res.
       if \<not> rs_ok res then
         let txt = (case rs_text res of Inl err \<Rightarrow> [] | Inr t \<Rightarrow> t) in
         Inl (Error (dec (rs_status res) @ js '' '' @ rs_statusText res @
                     (if txt \<noteq> [] then js '' - '' @ txt else [])))
       else
         let ct = (case rs_content_type res of None \<Rightarrow> [] | Some c \<Rightarrow> c) in
         if js_includes ct (js ''application/json'') then rs_json res else Inr JNull))"

section \<open>The WooCommerce client of part\_001\<close>

text \<open>The three configuration constants read from the environment at load time.\<close>

record config =
  BASE_URL :: "jsstring option"
  CK :: "jsstring option"
  CS :: "jsstring option"

definition read_config :: "env \<Rightarrow> config" where
  "read_config e =
     \<lparr>BASE_URL = e ''BASE_URL'', CK = e ''WOO_CONSUMER_KEY'', CS = e ''WOO_CONSUMER_SECRET''\<rparr>"

definition wcHeaders :: "config \<Rightarrow> headers" where
  "wcHeaders c =
     (let token = base64 (utf8_bytes (template (CK c) @ js '':'' @ template (CS c))) in
      [(js ''Authorization'', js ''Basic '' @ token),
       (js ''Content-Type'', js ''application/json''),
       (js ''Accept'', js ''application/json'')])"

text \<open>
  \<open>wcGet\<close>: the parameter \<open>qs\<close> is the text \<open>new URLSearchParams(params).toString()\<close>. The
  error message awaits \<open>res.text()\<close>, whose rejection is then the error of the call.
\<close>

definition wcGet :: "fetcher \<Rightarrow> config \<Rightarrow> jsstring \<Rightarrow> jsstring \<Rightarrow> js_error + jsval" where
  "wcGet fetch c path qs =
     (let url = template (BASE_URL c) @ path @ (if qs \<noteq> [] then js ''?'' @ qs else []) in
      and_then (fetch \<lparr>fr_url = url, fr_method = js ''GET'', fr_headers = wcHeaders c,
                       fr_body = None\<rparr>) (\<lambda>res.
        if \<not> rs_ok res then
          and_then (rs_text res) (\<lambda>t.
            Inl (Error (js ''Woo GET '' @ url @ js '' -> '' @ dec (rs_status res) @ js '' '' @ t)))
        else rs_json res))"

definition wcPut :: "fetcher \<Rightarrow> config \<Rightarrow> jsstring \<Rightarrow> jsval \<Rightarrow> js_error + jsval" where
  "wcPut fetch c path body =
     (let url = template (BASE_URL c) @ path in
      and_then (fetch \<lparr>fr_url = url, fr_method = js ''PUT'', fr_headers = wcHeaders c,
                       fr_body = Some body\<rparr>) (\<lambda>res.
        if \<not> rs_ok res then
          and_then (rs_text res) (\<lambda>t.
            Inl (Error (js ''Woo PUT '' @ url @ js '' -> '' @ dec (rs_status res) @ js '' '' @ t)))
        else rs_json res))"

section \<open>The \<open>wc_update_product\<close> tool (part\_001)\<close>

text \<open>
  \<^verbatim>\<open>updated.description?.slice(0, 200)\<close>: optional chaining stops at \<open>undefined\<close> and
  \<open>null\<close>; strings and arrays have a \<open>slice\<close> method; on any other value \<open>slice\<close> is
  \<open>undefined\<close> and the call throws.
\<close>

fun opt_slice_200 :: "jsval \<Rightarrow> js_error + jsval" where
  "opt_slice_200 JUndefined = Inr JUndefined"
| "opt_slice_200 JNull = Inr JUndefined"
| "opt_slice_200 (JStr s) = Inr (JStr (take 200 s))"
| "opt_slice_200 (JArr xs) = Inr (JArr (take 200 xs))"
| "opt_slice_200 v = Inl (TypeError (js ''updated.description?.slice is not a function''))"

text \<open>
  \<^verbatim>\<open>updated.description?.length > 200\<close>, evaluated after the slice has returned, that is
  on \<open>undefined\<close>, \<open>null\<close>, a string or an array; \<open>undefined > 200\<close> is false.
\<close>

fun opt_length_gt_200 :: "jsval \<Rightarrow> bool" where
  "opt_length_gt_200 (JStr s) = (200 < length s)"
| "opt_length_gt_200 (JArr xs) = (200 < length xs)"
| "opt_length_gt_200 v = False"

definition description_expr :: "(real \<Rightarrow> jsstring) \<Rightarrow> jsval \<Rightarrow> js_error + jsstring" where
  "description_expr nf d =
     and_then (opt_slice_200 d) (\<lambda>l.
       Inr (js_plus_str nf l (if opt_length_gt_200 d then ellipsis else [])))"

text \<open>
  The object \<open>out\<close> that the handler builds from the value \<open>updated\<close> returned by \<open>wcPut\<close>,
  field by field in the source's order. The handler returns its \<open>JSON.stringify\<close> text.
\<close>

definition update_out ::
  "(real \<Rightarrow> jsstring) \<Rightarrow> jsval \<Rightarrow> js_error + (jsstring \<times> jsval) list" where
  "update_out nf updated =
     and_then (get_prop updated (js ''id'')) (\<lambda>v_id.
     and_then (get_prop updated (js ''name'')) (\<lambda>v_name.
     and_then (get_prop updated (js ''permalink'')) (\<lambda>v_link.
     and_then (get_prop updated (js ''short_description'')) (\<lambda>v_short.
     and_then (get_prop updated (js ''description'')) (\<lambda>v_desc.
     and_then (description_expr nf v_desc) (\<lambda>desc.
     and_then (get_prop updated (js ''date_modified'')) (\<lambda>v_date.
       Inr [(js ''id'', v_id), (js ''name'', v_name), (js ''permalink'', v_link),
            (js ''short_description'', v_short), (js ''description'', JStr desc),
            (js ''date_modified'', v_date)])))))))"

text \<open>\<open>out.description\<close> of the result, when the handler returns one.\<close>

definition out_description :: "js_error + (jsstring \<times> jsval) list \<Rightarrow> jsval option" where
  "out_description r = (case r of Inl e \<Rightarrow> None | Inr out \<Rightarrow> map_of out (js ''description''))"

text \<open>
  The handler: \<open>input\<close> is the list of the properties of the tool's input object; \<open>id\<close> is
  taken out, the rest is the patch sent by \<open>wcPut\<close>. The result is \<open>out\<close>, which the handler
  returns as the text \<open>JSON.stringify(out, null, 2)\<close>.
\<close>

definition wc_update_product ::
  "fetcher \<Rightarrow> config \<Rightarrow> (real \<Rightarrow> jsstring) \<Rightarrow> (jsstring \<times> jsval) list
     \<Rightarrow> js_error + (jsstring \<times> jsval) list" where
  "wc_update_product fetch c nf input =
     (let id = (case map_of input (js ''id'') of None \<Rightarrow> JUndefined | Some v \<Rightarrow> v);
          patch = JObj (filter (\<lambda>kv. fst kv \<noteq> js ''id'') input)
      in and_then (wcPut fetch c (js ''/wp-json/wc/v3/products/'' @ ToString nf id) patch)
           (update_out nf))"

section \<open>Start-up of the two WooCommerce servers\<close>

text \<open>
  What running a module from its first line does: the process either exits, with a code
  and the lines written to the error stream, or reaches \<open>app.listen\<close>.
\<close>

datatype 'a startup = Exited nat "jsstring list" | Serving 'a

text \<open>
  part\_001 checks its three constants first. A string is falsy when it is undefined or
  empty.
\<close>

definition startup_woo :: "env \<Rightarrow> config startup" where
  "startup_woo e =
     (let c = read_config e in
      if \<not> truthy_str (BASE_URL c) \<or> \<not> truthy_str (CK c) \<or> \<not> truthy_str (CS c) then
        Exited 1 [js ''Missing env: BASE_URL, WOO_CONSUMER_KEY, WOO_CONSUMER_SECRET'']
      else Serving c)"

text \<open>
  Variant A (part\_000) computes \<open>base\<close> and reaches \<open>app.listen\<close>; nothing on the way reads
  \<open>WC_KEY\<close> or \<open>WC_SECRET\<close> or tests \<open>WC_URL\<close>.
\<close>

definition startup_variantA :: "env \<Rightarrow> jsstring startup" where
  "startup_variantA e = Serving (base e)"

section \<open>The client-facing response\<close>

text \<open>
  The Express response object as the handlers use it: the status, the headers that the
  source sets, what has been written to the body, and whether the response has ended.
\<close>

type_synonym chunk = "8 word list"

datatype sent = Bytes chunk | Text jsstring | Json jsval

record response =
  res_status :: nat
  res_headers :: headers
  res_sent :: "sent list"
  res_ended :: bool

definition new_response :: response where
  "new_response = \<lparr>res_status = 200, res_headers = [], res_sent = [], res_ended = False\<rparr>"

definition res_set_status :: "nat \<Rightarrow> response \<Rightarrow> response" where
  "res_set_status code r = r\<lparr>res_status := code\<rparr>"

definition res_setHeader :: "jsstring \<Rightarrow> jsstring \<Rightarrow> response \<Rightarrow> response" where
  "res_setHeader k v r =
     r\<lparr>res_headers := filter (\<lambda>h. toLowerCase (fst h) \<noteq> toLowerCase k) (res_headers r) @ [(k, v)]\<rparr>"

text \<open>A write after the end adds nothing to the body.\<close>

definition res_write :: "chunk \<Rightarrow> response \<Rightarrow> response" where
  "res_write c r = (if res_ended r then r else r\<lparr>res_sent := res_sent r @ [Bytes c]\<rparr>)"

definition res_end :: "response \<Rightarrow> response" where
  "res_end r = r\<lparr>res_ended := True\<rparr>"


definition res_json :: "jsval \<Rightarrow> response \<Rightarrow> response" where
  "res_json v r = res_end (r\<lparr>res_sent := res_sent r @ [Json v]\<rparr>)"


text \<open>The bytes that the client has received, in order.\<close>

fun body_bytes :: "sent list \<Rightarrow> chunk" where
  "body_bytes [] = []"
| "body_bytes (Bytes c # xs) = c @ body_bytes xs"
| "body_bytes (x # xs) = body_bytes xs"

section \<open>The streaming relay of the bridge (server.js)\<close>

text \<open>
  A readable stream that comes to an end: the chunks it yields, then either a normal close
  or an error. \<open>pipeTo\<close> hands every chunk to the sink's \<open>write\<close> in order, then calls
  \<open>close\<close> and fulfils, or calls \<open>abort\<close> and rejects with the stream's error.
\<close>

datatype stream_end = Closed | Errored js_error

record body_stream =
  bs_chunks :: "chunk list"
  bs_end :: stream_end

record sink =
  on_write :: "chunk \<Rightarrow> response \<Rightarrow> response"
  on_close :: "response \<Rightarrow> response"
  on_abort :: "response \<Rightarrow> response"

fun pipe_chunks :: "sink \<Rightarrow> chunk list \<Rightarrow> response \<Rightarrow> response" where
  "pipe_chunks k [] r = r"
| "pipe_chunks k (c # cs) r = pipe_chunks k cs (on_write k c r)"

definition pipeTo :: "body_stream \<Rightarrow> sink \<Rightarrow> response \<Rightarrow> (js_error + unit) \<times> response" where
  "pipeTo s k r =
     (let r' = pipe_chunks k (bs_chunks s) r in
      case bs_end s of
        Closed \<Rightarrow> (Inr (), on_close k r')
      | Errored err \<Rightarrow> (Inl err, on_abort k r'))"

text \<open>The sink of the handler: its three callbacks on \<open>res\<close>.\<close>

definition res_sink :: sink where
  "res_sink = \<lparr>on_write = res_write, on_close = res_end, on_abort = res_end\<rparr>"

text \<open>\<^verbatim>\<open>upstream.body.pipeTo(new WritableStream({...})).catch(() => res.end())\<close>\<close>

definition relay :: "body_stream \<Rightarrow> response \<Rightarrow> response" where
  "relay s r =
     (case pipeTo s res_sink r of
        (Inr u, r') \<Rightarrow> r'
      | (Inl err, r') \<Rightarrow> res_end r')"

section \<open>The \<open>POST /sse\<close> handler of the bridge\<close>

record bridge_config =
  TARGET_STREAM_URL :: jsstring
  BEARER :: jsstring

definition bridge_config_of :: "env \<Rightarrow> bridge_config" where
  "bridge_config_of e =
     \<lparr>TARGET_STREAM_URL =
        (if truthy_str (e ''TARGET_STREAM_URL'') then template (e ''TARGET_STREAM_URL'')
         else js ''https://africancreationsbaskets.com/wp-json/wp/v2/wpmcp/streamable''),
      BEARER = (if truthy_str (e ''BEARER'') then template (e ''BEARER'') else [])\<rparr>"

text \<open>
  The streaming response of the upstream: status, \<open>headers.get\<close>, and the body, \<open>None\<close>
  when \<open>upstream.body\<close> is null.
\<close>

record upstream =
  up_status :: nat
  up_get :: "jsstring \<Rightarrow> jsstring option"
  up_body :: "body_stream option"

type_synonym stream_fetcher = "fetch_request \<Rightarrow> js_error + upstream"

text \<open>\<open>x || d\<close> on a header value: \<open>null\<close> and the empty string give the default.\<close>

definition or_default :: "jsstring option \<Rightarrow> jsstring \<Rightarrow> jsstring" where
  "or_default v d = (if truthy_str v then template v else d)"

text \<open>The request that the handler forwards; \<open>body\<close> is \<open>req.body\<close>.\<close>

definition sse_request :: "bridge_config \<Rightarrow> jsval \<Rightarrow> fetch_request" where
  "sse_request cfg body =
     \<lparr>fr_url = TARGET_STREAM_URL cfg, fr_method = js ''POST'',
      fr_headers =
        [(js ''Content-Type'', js ''application/json''),
         (js ''Accept'', js ''application/json, text/event-stream'')] @
        (if BEARER cfg \<noteq> [] then [(js ''Authorization'', js ''Bearer '' @ BEARER cfg)] else []),
      fr_body = Some (if body = JUndefined \<or> body = JNull then JObj [] else body)\<rparr>"

text \<open>\<^verbatim>\<open>req.body?.id ?? null\<close>\<close>

definition request_id :: "jsval \<Rightarrow> jsval" where
  "request_id body =
     (case (if body = JUndefined \<or> body = JNull then Inr JUndefined
            else get_prop body (js ''id'')) of
        Inl err \<Rightarrow> JNull
      | Inr v \<Rightarrow> if v = JUndefined \<or> v = JNull then JNull else v)"

text \<open>
  The body of the \<open>try\<close> block. The step that throws is the awaited \<open>fetch\<close>, which comes
  before any use of \<open>res\<close>, so the \<open>catch\<close> block finds \<open>res\<close> as the handler received it.
\<close>

definition sse_try :: "bridge_config \<Rightarrow> stream_fetcher \<Rightarrow> jsval \<Rightarrow> response \<Rightarrow> js_error + response" where
  "sse_try cfg fetch body res =
     and_then (fetch (sse_request cfg body)) (\<lambda>up.
       let r1 = res_set_status (up_status up) res;
           ct = or_default (up_get up (js ''content-type'')) (js ''application/json'');
           proto = or_default (up_get up (js ''mcp-protocol-version'')) [];
           transport = or_default (up_get up (js ''x-transport-type'')) [];
           r2 = res_setHeader (js ''Content-Type'') ct r1;
           r3 = (if proto \<noteq> [] then res_setHeader (js ''mcp-protocol-version'') proto r2 else r2);
           r4 = (if transport \<noteq> [] then res_setHeader (js ''x-transport-type'') transport r3
                 else r3)
       in case up_body up of
            None \<Rightarrow> Inr (res_end r4)
          | Some s \<Rightarrow> Inr (relay s r4))"

definition sse_catch :: "jsval \<Rightarrow> response \<Rightarrow> js_error + response" where
  "sse_catch body res =
     Inr (res_json
            (JObj [(js ''jsonrpc'', JStr (js ''2.0'')),
                   (js ''id'', request_id body),
                   (js ''error'',
                    JObj [(js ''code'', JNum (- 32603)),
                          (js ''message'', JStr (js ''Upstream proxy error''))])])
            (res_set_status 502 res))"

text \<open>
  The handler. \<open>Inl\<close> would be an exception leaving the handler; \<open>Inr\<close> is the state of the
  response once the relay has run to the end of the upstream's stream.
\<close>

definition sse_handler :: "bridge_config \<Rightarrow> stream_fetcher \<Rightarrow> jsval \<Rightarrow> response \<Rightarrow> js_error + response" where
  "sse_handler cfg fetch body res =
     (case sse_try cfg fetch body res of
        Inr r \<Rightarrow> Inr r
      | Inl err \<Rightarrow> sse_catch body res)"

section \<open>Routing\<close>

text \<open>
  An inbound request as the routers see it: the method, the path without the query string,
  and what \<open>express.json()\<close> makes of the body: nothing to parse, a parsed value, or a
  rejection with its HTTP status (400 for malformed JSON, 413 for a body over the limit).
\<close>

datatype body_in = NoBody | Parsed jsval | Rejected nat

record request =
  rq_method :: jsstring
  rq_path :: jsstring
  rq_body :: body_in
















section \<open>The outcomes that the specification names\<close>

text \<open>
  The error message in the specification's words: \<open><status> <statusText> - <body>\<close> when
  the body is not empty, \<open><status> <statusText>\<close> otherwise; the body captured from a
  response, empty when it cannot be read; and a content type that indicates JSON, which
  for the source is one that contains \<open>application/json\<close>.
\<close>

definition spec_error_message :: "nat \<Rightarrow> jsstring \<Rightarrow> jsstring \<Rightarrow> jsstring" where
  "spec_error_message status statusText body =
     (if body \<noteq> [] then dec status @ js '' '' @ statusText @ js '' - '' @ body
      else dec status @ js '' '' @ statusText)"

definition captured_body :: "fetch_response \<Rightarrow> jsstring" where
  "captured_body res = (case rs_text res of Inl err \<Rightarrow> [] | Inr t \<Rightarrow> t)"

definition indicated_json :: "fetch_response \<Rightarrow> bool" where
  "indicated_json res =
     js_includes (case rs_content_type res of None \<Rightarrow> [] | Some ct \<Rightarrow> ct) (js ''application/json'')"

section \<open>Sample inputs\<close>

definition sample_config :: config where
  "sample_config =
     \<lparr>BASE_URL = Some (js ''https://shop.example''), CK = Some (js ''ck_abc''),
      CS = Some (js ''cs_xyz'')\<rparr>"

definition json_response :: "jsval \<Rightarrow> fetch_response" where
  "json_response v =
     \<lparr>rs_status = 200, rs_statusText = js ''OK'',
      rs_content_type = Some (js ''application/json; charset=UTF-8''),
      rs_text = Inl (Error (js ''body used already'')), rs_json = Inr v\<rparr>"

definition query_env :: env where
  "query_env =
     (\<lambda>x. None)(''WC_URL'' \<mapsto> js ''https://shop.example'', ''WC_KEY'' \<mapsto> js ''ck a&b'',
                ''WC_SECRET'' \<mapsto> js ''cs=1'', ''WC_AUTH_IN_QUERY'' \<mapsto> js ''True'')"

definition header_env :: env where
  "header_env =
     (\<lambda>x. None)(''WC_URL'' \<mapsto> js ''https://shop.example'', ''WC_KEY'' \<mapsto> js ''ck_abc'',
                ''WC_SECRET'' \<mapsto> js ''cs_xyz'')"

definition sample_bridge :: bridge_config where
  "sample_bridge = \<lparr>TARGET_STREAM_URL = js ''https://up.example/stream'', BEARER = []\<rparr>"

definition abc_stream :: "stream_end \<Rightarrow> body_stream" where
  "abc_stream e = \<lparr>bs_chunks = [[0x61], [0x62], [0x63]], bs_end = e\<rparr>"

definition sse_upstream :: "body_stream option \<Rightarrow> upstream" where
  "sse_upstream b =
     \<lparr>up_status = 200,
      up_get = (\<lambda>k. if k = js ''content-type'' then Some (js ''text/event-stream'') else None),
      up_body = b\<rparr>"

definition not_found_response :: fetch_response where
  "not_found_response =
     \<lparr>rs_status = 404, rs_statusText = js ''Not Found'',
      rs_content_type = Some (js ''application/json''),
      rs_text = Inr (js ''nope''), rs_json = Inl (SyntaxError (js ''Unexpected token''))\<rparr>"

definition plain_response :: fetch_response where
  "plain_response =
     \<lparr>rs_status = 200, rs_statusText = js ''OK'',
      rs_content_type = Some (js ''text/plain''),
      rs_text = Inr (js ''hello''), rs_json = Inl (SyntaxError (js ''Unexpected token''))\<rparr>"

definition no_secret_env :: env where
  "no_secret_env =
     (\<lambda>x. None)(''BASE_URL'' \<mapsto> js ''https://shop.example'', ''WOO_CONSUMER_KEY'' \<mapsto> js ''ck_abc'')"

definition probe :: "string \<Rightarrow> string \<Rightarrow> request" where
  "probe m p = \<lparr>rq_method = js m, rq_path = js p, rq_body = NoBody\<rparr>"



text \<open>A request whose JSON body the parser rejects as malformed.\<close>

definition bad_json_probe :: "string \<Rightarrow> string \<Rightarrow> request" where
  "bad_json_probe m p = \<lparr>rq_method = js m, rq_path = js p, rq_body = Rejected 400\<rparr>"


section \<open>Properties of \<open>wc_update_product\<close>\<close>

lemma and_then_simps [simp]:
  "and_then (Inl e) f = Inl e"
  "and_then (Inr v) f = f v"
  by (simp_all add: and_then_def)

lemma update_out_description:
  "out_description (update_out nf (JObj kvs)) =
     (case description_expr nf (case map_of kvs (js ''description'') of None \<Rightarrow> JUndefined | Some v \<Rightarrow> v)
      of Inl e \<Rightarrow> None | Inr s \<Rightarrow> Some (JStr s))"
  by (simp add: update_out_def out_description_def js_def split: sum.splits)

lemma wcPut_ok:
  "rs_ok res \<Longrightarrow> wcPut (\<lambda>rq. Inr res) c path body = rs_json res"
  by (simp add: wcPut_def Let_def)

text \<open>
  C7. When the upstream answers the update with an object whose \<open>description\<close> is a string
  \<open>d\<close>, the description that \<open>wc_update_product\<close> returns is \<open>d\<close> itself if \<open>d\<close> has at most
  200 characters, and otherwise the first 200 characters of \<open>d\<close> followed by one ellipsis
  character. Characters are counted as JavaScript counts them, in UTF-16 code units.
\<close>

theorem update_description_truncated:
  assumes "rs_ok res"
    and "rs_json res = Inr (JObj kvs)"
    and "map_of kvs (js ''description'') = Some (JStr d)"
  shows "out_description (wc_update_product (\<lambda>rq. Inr res) c nf input) =
           Some (JStr (if 200 < length d then take 200 d @ ellipsis else d))"
  using assms
  by (simp add: wc_update_product_def Let_def wcPut_ok update_out_description
      description_expr_def js_plus_str_def)

theorem update_description_truncated_witness:
  "out_description
     (wc_update_product
        (\<lambda>rq. Inr (json_response (JObj [(js ''description'', JStr (replicate 201 0x61))])))
        sample_config (\<lambda>x. []) [(js ''id'', JNum 7)]) =
   Some (JStr (replicate 200 0x61 @ ellipsis))"
proof -
  have ok: "rs_ok (json_response (JObj [(js ''description'', JStr (replicate 201 0x61))]))"
    by (simp add: rs_ok_def json_response_def)
  have j: "rs_json (json_response (JObj [(js ''description'', JStr (replicate 201 0x61))])) =
             Inr (JObj [(js ''description'', JStr (replicate 201 0x61))])"
    by (simp add: json_response_def)
  have m: "map_of [(js ''description'', JStr (replicate 201 0x61))] (js ''description'') =
             Some (JStr (replicate 201 0x61))"
    by simp
  show ?thesis
    using update_description_truncated [OF ok j m, of sample_config "\<lambda>x. []" "[(js ''id'', JNum 7)]"]
    by simp
qed

text \<open>
  C10. When the upstream answers the update with an object that has no \<open>description\<close>, the
  description that \<open>wc_update_product\<close> returns is the nine-character string \<open>undefined\<close>.
\<close>

theorem update_description_absent:
  assumes "rs_ok res"
    and "rs_json res = Inr (JObj kvs)"
    and "map_of kvs (js ''description'') = None"
  shows "out_description (wc_update_product (\<lambda>rq. Inr res) c nf input) =
           Some (JStr (js ''undefined''))"
  using assms
  by (simp add: wc_update_product_def Let_def wcPut_ok update_out_description
      description_expr_def js_plus_str_def)

theorem update_description_absent_witness:
  "out_description
     (wc_update_product (\<lambda>rq. Inr (json_response (JObj [(js ''id'', JNum 7)])))
        sample_config (\<lambda>x. []) [(js ''id'', JNum 7)]) =
   Some (JStr (js ''undefined''))"
proof -
  have ok: "rs_ok (json_response (JObj [(js ''id'', JNum 7)]))"
    by (simp add: rs_ok_def json_response_def)
  have j: "rs_json (json_response (JObj [(js ''id'', JNum 7)])) = Inr (JObj [(js ''id'', JNum 7)])"
    by (simp add: json_response_def)
  have m: "map_of [(js ''id'', JNum 7)] (js ''description'') = None"
    by (simp add: js_def)
  show ?thesis
    using update_description_absent [OF ok j m, of sample_config "\<lambda>x. []" "[(js ''id'', JNum 7)]"]
    by simp
qed

section \<open>Properties of the encodings\<close>

lemma starts_with_append: "starts_with (t @ s) t"
  by (induction t) auto

lemma js_includes_single: "js_includes p [c] = (c \<in> set p)"
proof (induction p)
  case Nil show ?case by simp
next
  case (Cons d p)
  have "starts_with (d # p) [c] = (d = c)" by (cases p) auto
  with Cons show ?case by auto
qed

lemma js_includes_prefix: "js_includes (t @ s) t"
proof (cases "t @ s")
  case Nil then show ?thesis by simp
next
  case (Cons d r)
  have "starts_with (t @ s) t" by (rule starts_with_append)
  with Cons show ?thesis by simp
qed

lemma hex_digit_safe: "n < 16 \<Longrightarrow> unescaped (hex_digit n)"
proof -
  assume "n < 16"
  then have "hex_digit n \<in> set (js ''0123456789ABCDEF'')"
    unfolding hex_digit_def by (intro nth_mem) (simp add: js_def)
  then show ?thesis by (auto simp: unescaped_def js_def)
qed

lemma percent_safe: "u \<in> set (percent b) \<Longrightarrow> url_safe u"
proof -
  have "unat b < 256" using unsigned_less [of b, where ?'a = nat] by simp
  then have "unat b div 16 < 16" by simp
  then have hi: "unescaped (hex_digit (unat b div 16))" by (rule hex_digit_safe)
  have lo: "unescaped (hex_digit (unat b mod 16))" by (rule hex_digit_safe) simp
  assume "u \<in> set (percent b)"
  with hi lo show "url_safe u"
    by (auto simp: percent_def url_safe_def)
qed

lemma escapes_safe: "u \<in> set (concat (map percent bs)) \<Longrightarrow> url_safe u"
  by (auto dest: percent_safe)

lemma encodeURIComponent_safe:
  "encodeURIComponent s = Inr r \<Longrightarrow> u \<in> set r \<Longrightarrow> url_safe u"
proof (induction s arbitrary: r rule: encodeURIComponent.induct)
  case 1
  then show ?case by simp
next
  case (2 v)
  then show ?case
    by (auto split: if_splits simp: url_safe_def dest: percent_safe [unfolded url_safe_def])
next
  case (3 v l us)
  show ?case
  proof (cases "unescaped v")
    case True
    with 3 show ?thesis by (auto simp: and_then_def url_safe_def split: sum.splits)
  next
    case False
    with 3 show ?thesis
      by (auto simp: and_then_def split: sum.splits if_splits dest: percent_safe)
  qed
qed

lemma is_high_not_unescaped: "is_high u \<Longrightarrow> \<not> unescaped u"
  by (auto simp: is_high_def unescaped_def js_def)

lemma is_low_not_unescaped: "is_low u \<Longrightarrow> \<not> unescaped u"
  by (auto simp: is_low_def unescaped_def js_def)

lemma encodeURIComponent_total:
  "well_formed s \<Longrightarrow> \<exists>r. encodeURIComponent s = Inr r"
proof (induction s rule: encodeURIComponent.induct)
  case 1 show ?case by simp
next
  case (2 u) then show ?case by simp
next
  case (3 u l us)
  then show ?case
    by (auto split: if_splits simp: is_high_not_unescaped)
qed

lemma index_of_nth: "distinct xs \<Longrightarrow> n < length xs \<Longrightarrow> index_of (xs ! n) xs = Some n"
proof (induction xs arbitrary: n)
  case Nil then show ?case by simp
next
  case (Cons x xs)
  show ?case
  proof (cases n)
    case 0 then show ?thesis by simp
  next
    case (Suc m)
    with Cons.prems have "xs ! m \<in> set xs" "m < length xs" by simp_all
    with Cons.prems have "xs ! m \<noteq> x" by auto
    with Cons Suc show ?thesis by simp
  qed
qed

lemma b64alphabet_distinct: "distinct b64alphabet" "length b64alphabet = 64" "61 \<notin> set b64alphabet"
  by (simp_all add: b64alphabet_def js_def)

lemma b64char_alphabet: "b64char n = b64alphabet ! n"
  by (simp add: b64char_def)

lemma b64index_b64char: "n < 64 \<Longrightarrow> b64index (b64char n) = Some n"
  by (simp add: b64index_def b64char_alphabet index_of_nth b64alphabet_distinct)

lemma b64char_not_pad: "n < 64 \<Longrightarrow> b64char n \<noteq> 61"
proof -
  assume "n < 64"
  then have "b64alphabet ! n \<in> set b64alphabet"
    by (simp add: b64alphabet_distinct(2))
  with b64alphabet_distinct(3) show ?thesis
    by (auto simp: b64char_alphabet)
qed

lemma byte_less: "unat (a :: 8 word) < 256"
  using unsigned_less [of a, where ?'a = nat] by simp

lemma div_bound: "(b::nat) < 256 \<Longrightarrow> b div 16 < 16" "(b::nat) < 256 \<Longrightarrow> b div 64 < 4" "(b::nat) < 256 \<Longrightarrow> b div 4 < 64"
  by (simp_all add: less_mult_imp_div_less)

lemma group16: "(y::nat) < 16 \<Longrightarrow> (x * 16 + y) div 16 = x" "(y::nat) < 16 \<Longrightarrow> (x * 16 + y) mod 16 = y"
  by simp_all

lemma group4: "(y::nat) < 4 \<Longrightarrow> (x * 4 + y) div 4 = x" "(y::nat) < 4 \<Longrightarrow> (x * 4 + y) mod 4 = y"
  by simp_all

lemma sextet_bounds:
  fixes a b c :: nat
  assumes "a < 256" "b < 256" "c < 256"
  shows "a div 4 < 64" "a mod 4 * 16 + b div 16 < 64" "b mod 16 * 4 + c div 64 < 64" "c mod 64 < 64"
    "a mod 4 * 16 < 64" "b mod 16 * 4 < 64"
proof -
  have "a mod 4 < 4" "b mod 16 < 16" by simp_all
  moreover have "b div 16 < 16" "c div 64 < 4" "a div 4 < 64" using assms by (simp_all add: div_bound)
  ultimately show "a div 4 < 64" "a mod 4 * 16 + b div 16 < 64" "b mod 16 * 4 + c div 64 < 64"
    "c mod 64 < 64" "a mod 4 * 16 < 64" "b mod 16 * 4 < 64"
    by linarith+
qed

lemma of_nat_unat_byte: "(of_nat (unat a) :: 8 word) = a"
  by simp

lemma octet_first: "(a::nat) div 4 * 4 + (a mod 4 * 16 + y) div 16 = a" if "y < 16"
proof -
  have "(a mod 4 * 16 + y) div 16 = a mod 4" using that by (rule group16(1))
  then show ?thesis by simp
qed

lemma octet_second: "(x * 16 + b div 16) mod 16 * 16 + (b mod 16 * 4 + z) div 4 = b"
  if "(b::nat) < 256" "z < 4"
proof -
  have "b div 16 < 16" using that(1) by (rule div_bound(1))
  then have "(x * 16 + b div 16) mod 16 = b div 16" by (rule group16(2))
  moreover have "(b mod 16 * 4 + z) div 4 = b mod 16" using that(2) by (rule group4(1))
  ultimately show ?thesis by simp
qed

lemma octet_third: "(x * 4 + c div 64) mod 4 * 64 + c mod 64 = c" if "(c::nat) < 256"
proof -
  have "c div 64 < 4" using that by (rule div_bound(2))
  then have "(x * 4 + c div 64) mod 4 = c div 64" by (rule group4(2))
  then show ?thesis by simp
qed

text \<open>Decoding the base64 text of any bytes gives the bytes back.\<close>

lemma base64_roundtrip: "base64_decode (base64 bs) = Some bs"
proof (induction bs rule: base64.induct)
  case 1
  show ?case by simp
next
  case (2 a)
  have "unat a div 4 * 4 + (unat a mod 4 * 16) div 16 = unat a"
    using octet_first [of 0 "unat a"] by simp
  then show ?case
    using sextet_bounds [OF byte_less [of a] byte_less [of a] byte_less [of a]]
    by (simp add: b64index_b64char)
next
  case (3 a b)
  have s: "unat a div 4 < 64" "unat a mod 4 * 16 + unat b div 16 < 64" "unat b mod 16 * 4 < 64"
    using sextet_bounds [OF byte_less [of a] byte_less [of b] byte_less [of b]] by simp_all
  have "unat b div 16 < 16" using byte_less by (rule div_bound(1))
  then have o1: "unat a div 4 * 4 + (unat a mod 4 * 16 + unat b div 16) div 16 = unat a"
    by (rule octet_first)
  have o2: "(unat a mod 4 * 16 + unat b div 16) mod 16 * 16 + (unat b mod 16 * 4) div 4 = unat b"
    using octet_second [of "unat b" 0 "unat a mod 4"] byte_less [of b] by simp
  show ?case
    using s o1 o2 by (simp add: b64index_b64char b64char_not_pad)
next
  case (4 a b c bs)
  have s: "unat a div 4 < 64" "unat a mod 4 * 16 + unat b div 16 < 64"
    "unat b mod 16 * 4 + unat c div 64 < 64" "unat c mod 64 < 64"
    using sextet_bounds [OF byte_less [of a] byte_less [of b] byte_less [of c]] by simp_all
  have "unat b div 16 < 16" using byte_less by (rule div_bound(1))
  then have o1: "unat a div 4 * 4 + (unat a mod 4 * 16 + unat b div 16) div 16 = unat a"
    by (rule octet_first)
  have "unat c div 64 < 4" using byte_less by (rule div_bound(2))
  then have o2: "(unat a mod 4 * 16 + unat b div 16) mod 16 * 16
      + (unat b mod 16 * 4 + unat c div 64) div 4 = unat b"
    using octet_second [of "unat b" "unat c div 64" "unat a mod 4"] byte_less [of b] by simp
  have o3: "(unat b mod 16 * 4 + unat c div 64) mod 4 * 64 + unat c mod 64 = unat c"
    using byte_less by (rule octet_third)
  show ?case
    using s o1 o2 o3 4 by (simp add: b64index_b64char b64char_not_pad)
qed

section \<open>Properties of the credential handling\<close>

lemma js_question: "js ''?'' = [0x3F]"
  by (simp add: js_def)

text \<open>
  C4. In query mode, for every path, \<open>withAuth\<close> returns the base URL, the path, a separator
  and \<open>consumer_key=\<close>, the encoded key, \<open>&consumer_secret=\<close> and the encoded secret, in
  this order. The separator is \<open>&\<close> when the path contains a question mark and \<open>?\<close> when it
  does not. The encoded key and secret consist of unreserved characters and \<open>%\<close> escapes
  only, and \<open>authHeaders\<close> gives the content type and no authorization header.
\<close>

theorem query_auth_url:
  assumes "useQueryAuth e"
    and "encodeURIComponent (template (e ''WC_KEY'')) = Inr k"
    and "encodeURIComponent (template (e ''WC_SECRET'')) = Inr s"
  shows "withAuth e path =
           Inr (base e @ path @ (if 0x3F \<in> set path then js ''&'' else js ''?'') @
                js ''consumer_key='' @ k @ js ''&consumer_secret='' @ s)
         \<and> (\<forall>u \<in> set k \<union> set s. url_safe u)
         \<and> authHeaders e = [(js ''Content-Type'', js ''application/json'')]"
proof -
  have "\<forall>u \<in> set k \<union> set s. url_safe u"
    using assms(2,3) by (auto dest: encodeURIComponent_safe)
  moreover have "authHeaders e = [(js ''Content-Type'', js ''application/json'')]"
    using assms(1) by (simp add: authHeaders_def)
  moreover have "withAuth e path =
           Inr (base e @ path @ (if 0x3F \<in> set path then js ''&'' else js ''?'') @
                js ''consumer_key='' @ k @ js ''&consumer_secret='' @ s)"
    using assms by (simp add: withAuth_def Let_def js_question js_includes_single)
  ultimately show ?thesis by blast
qed

text \<open>On well-formed credentials \<open>withAuth\<close> returns a URL for every path.\<close>

lemma withAuth_returns:
  assumes "well_formed (template (e ''WC_KEY''))" and "well_formed (template (e ''WC_SECRET''))"
  shows "\<exists>url. withAuth e path = Inr url"
proof -
  obtain k s where "encodeURIComponent (template (e ''WC_KEY'')) = Inr k"
    and "encodeURIComponent (template (e ''WC_SECRET'')) = Inr s"
    using assms encodeURIComponent_total by blast
  then show ?thesis
    by (simp add: withAuth_def Let_def)
qed

lemma query_env_mode: "useQueryAuth query_env"
  by (simp add: useQueryAuth_def query_env_def toLowerCase_def lower_def js_def)
lemma query_env_key: "encodeURIComponent (template (query_env ''WC_KEY'')) = Inr (js ''ck%20a%26b'')"
  by (simp add: query_env_def template_def js_def unescaped_def is_high_def is_low_def utf8_def percent_def hex_digit_def)
lemma query_env_secret: "encodeURIComponent (template (query_env ''WC_SECRET'')) = Inr (js ''cs%3D1'')"
  by (simp add: query_env_def template_def js_def unescaped_def is_high_def is_low_def utf8_def percent_def hex_digit_def)

theorem query_auth_url_witness:
  "withAuth query_env (js ''/products'') =
     Inr (js ''https://shop.example/wp-json/wc/v3/products?consumer_key=ck%20a%26b&consumer_secret=cs%3D1'')
   \<and> withAuth query_env (js ''/products?foo=bar'') =
     Inr (js ''https://shop.example/wp-json/wc/v3/products?foo=bar&consumer_key=ck%20a%26b&consumer_secret=cs%3D1'')
   \<and> authHeaders query_env = [(js ''Content-Type'', js ''application/json'')]"
proof -
  have b: "base query_env = js ''https://shop.example/wp-json/wc/v3''"
    by (simp add: base_def query_env_def template_def js_def)
  have "0x3F \<notin> set (js ''/products'')" "0x3F \<in> set (js ''/products?foo=bar'')"
    by (simp_all add: js_def)
  then show ?thesis
    using query_auth_url [OF query_env_mode query_env_key query_env_secret, of "js ''/products''"]
      query_auth_url [OF query_env_mode query_env_key query_env_secret, of "js ''/products?foo=bar''"]
    by (simp add: b js_def)
qed

text \<open>
  C5. In header mode, for every configured key \<open>k\<close> and secret \<open>s\<close>, the authorization header
  of \<open>authHeaders\<close> (variant A) and of \<open>wcHeaders\<close> (part\_001) is \<open>Basic\<close>, a space, and the
  base64 text of the UTF-8 bytes of \<open>k:s\<close>; both also give the JSON content type.
\<close>

theorem basic_auth_header:
  assumes "\<not> useQueryAuth e" and "e ''WC_KEY'' = Some k" and "e ''WC_SECRET'' = Some s"
    and "CK c = Some k" and "CS c = Some s"
  shows "map_of (authHeaders e) (js ''Authorization'') =
           Some (js ''Basic '' @ base64 (utf8_bytes (k @ js '':'' @ s)))
         \<and> map_of (authHeaders e) (js ''Content-Type'') = Some (js ''application/json'')
         \<and> map_of (wcHeaders c) (js ''Authorization'') =
           Some (js ''Basic '' @ base64 (utf8_bytes (k @ js '':'' @ s)))
         \<and> map_of (wcHeaders c) (js ''Content-Type'') = Some (js ''application/json'')"
  using assms
  by (simp add: authHeaders_def wcHeaders_def Let_def template_def) (simp add: js_def)

lemma header_env_mode: "\<not> useQueryAuth header_env"
  by (simp add: useQueryAuth_def header_env_def toLowerCase_def js_def)

theorem basic_auth_header_witness:
  "map_of (authHeaders header_env) (js ''Authorization'') = Some (js ''Basic Y2tfYWJjOmNzX3h5eg=='')
   \<and> map_of (authHeaders header_env) (js ''Content-Type'') = Some (js ''application/json'')
   \<and> map_of (wcHeaders sample_config) (js ''Authorization'') =
       Some (js ''Basic Y2tfYWJjOmNzX3h5eg=='')
   \<and> map_of (wcHeaders sample_config) (js ''Content-Type'') = Some (js ''application/json'')"
proof -
  have k: "header_env ''WC_KEY'' = Some (js ''ck_abc'')"
    and s: "header_env ''WC_SECRET'' = Some (js ''cs_xyz'')"
    by (simp_all add: header_env_def)
  have ck: "CK sample_config = Some (js ''ck_abc'')"
    and cs: "CS sample_config = Some (js ''cs_xyz'')"
    by (simp_all add: sample_config_def)
  have b: "base64 (utf8_bytes (js ''ck_abc'' @ js '':'' @ js ''cs_xyz'')) = js ''Y2tfYWJjOmNzX3h5eg==''"
    by (simp add: js_def utf8_def is_high_def is_low_def b64char_def b64alphabet_def)
  show ?thesis
    using basic_auth_header [OF header_env_mode k s ck cs]
    by (simp add: b) (simp add: js_def)
qed

section \<open>Properties of the bridge\<close>

lemma res_sink_simps [simp]:
  "on_write res_sink = res_write" "on_close res_sink = res_end" "on_abort res_sink = res_end"
  by (simp_all add: res_sink_def)

lemma pipe_chunks_res_sink:
  "\<not> res_ended r \<Longrightarrow>
     pipe_chunks res_sink cs r = r\<lparr>res_sent := res_sent r @ map Bytes cs\<rparr>"
proof (induction cs arbitrary: r)
  case Nil
  then show ?case by simp
next
  case (Cons c cs)
  have step: "res_write c r = r\<lparr>res_sent := res_sent r @ [Bytes c]\<rparr>"
    using Cons.prems by (simp add: res_write_def)
  have "\<not> res_ended (r\<lparr>res_sent := res_sent r @ [Bytes c]\<rparr>)"
    using Cons.prems by simp
  from Cons.IH [OF this] show ?case
    by (simp add: step)
qed

lemma relay_result:
  "\<not> res_ended r \<Longrightarrow>
     relay s r = r\<lparr>res_sent := res_sent r @ map Bytes (bs_chunks s), res_ended := True\<rparr>"
  by (cases "bs_end s")
     (simp_all add: relay_def pipeTo_def Let_def pipe_chunks_res_sink res_end_def)

lemma body_bytes_Bytes: "body_bytes (map Bytes cs) = concat cs"
  by (induction cs) simp_all

lemma headers_not_ended [simp]:
  "res_ended (res_setHeader k v r) = res_ended r"
  "res_ended (res_set_status n r) = res_ended r"
  "res_sent (res_setHeader k v r) = res_sent r"
  "res_sent (res_set_status n r) = res_sent r"
  by (simp_all add: res_setHeader_def res_set_status_def)

text \<open>
  C1. Whenever the upstream answers the forwarded request, the handler returns without an
  exception, the writes to the client are exactly the chunks of the upstream's body, one
  write per chunk, in the order received and unchanged (none when there is no body), and
  the response has ended. This holds whether the stream closes normally or fails after
  its last chunk.
\<close>

theorem sse_relay_verbatim:
  assumes "fetch (sse_request cfg body) = Inr up"
  shows "\<exists>r. sse_handler cfg fetch body new_response = Inr r
           \<and> res_sent r = map Bytes (case up_body up of None \<Rightarrow> [] | Some s \<Rightarrow> bs_chunks s)
           \<and> body_bytes (res_sent r) = concat (case up_body up of None \<Rightarrow> [] | Some s \<Rightarrow> bs_chunks s)
           \<and> res_ended r"
proof (cases "up_body up")
  case None
  then show ?thesis
    using assms
    by (simp add: sse_handler_def sse_try_def Let_def res_end_def new_response_def)
next
  case (Some s)
  then show ?thesis
    using assms
    by (simp add: sse_handler_def sse_try_def Let_def relay_result new_response_def
        body_bytes_Bytes)
qed

theorem sse_relay_verbatim_witness:
  "(\<exists>r. sse_handler sample_bridge (\<lambda>rq. Inr (sse_upstream (Some (abc_stream Closed))))
          (JObj []) new_response = Inr r
        \<and> res_sent r = [Bytes [0x61], Bytes [0x62], Bytes [0x63]]
        \<and> body_bytes (res_sent r) = [0x61, 0x62, 0x63] \<and> res_ended r)
   \<and> (\<exists>r. sse_handler sample_bridge
            (\<lambda>rq. Inr (sse_upstream (Some (abc_stream (Errored (Error (js ''reset'')))))))
            (JObj []) new_response = Inr r
        \<and> res_sent r = [Bytes [0x61], Bytes [0x62], Bytes [0x63]]
        \<and> body_bytes (res_sent r) = [0x61, 0x62, 0x63] \<and> res_ended r)"
  using sse_relay_verbatim [of "\<lambda>rq. Inr (sse_upstream (Some (abc_stream Closed)))"
      sample_bridge "JObj []" "sse_upstream (Some (abc_stream Closed))"]
    sse_relay_verbatim [of "\<lambda>rq. Inr (sse_upstream (Some (abc_stream (Errored (Error (js ''reset''))))))"
      sample_bridge "JObj []" "sse_upstream (Some (abc_stream (Errored (Error (js ''reset'')))))"]
  by (simp add: sse_upstream_def abc_stream_def)

lemma request_id_cases:
  "request_id body =
     (case body of
        JObj kvs \<Rightarrow>
          (case map_of kvs (js ''id'') of
             None \<Rightarrow> JNull
           | Some v \<Rightarrow> if v = JUndefined then JNull else v)
      | _ \<Rightarrow> JNull)"
  by (cases body) (auto simp: request_id_def split: option.splits)

text \<open>An absent body and an empty object are handled alike.\<close>

lemma sse_handler_no_body:
  "sse_handler cfg fetch JUndefined res = sse_handler cfg fetch (JObj []) res"
proof -
  have "sse_request cfg JUndefined = sse_request cfg (JObj [])"
    by (simp add: sse_request_def)
  then have t: "sse_try cfg fetch JUndefined res = sse_try cfg fetch (JObj []) res"
    by (simp add: sse_try_def)
  have c: "sse_catch JUndefined res = sse_catch (JObj []) res"
    by (simp add: sse_catch_def request_id_def)
  show ?thesis
    by (simp only: sse_handler_def t c)
qed

text \<open>
  C2. When \<open>fetch\<close> rejects, the handler answers with status 502 and the JSON body made of
  \<open>jsonrpc\<close> = \<open>2.0\<close>, \<open>id\<close> = the \<open>id\<close> of the request body, or \<open>null\<close> when the body is
  not an object or has no \<open>id\<close>, and \<open>error\<close> = code -32603 with the message
  \<open>Upstream proxy error\<close>; nothing else is written and the response has ended.
\<close>

theorem sse_fetch_failure:
  assumes "fetch (sse_request cfg body) = Inl err"
  shows "sse_handler cfg fetch body new_response =
           Inr \<lparr>res_status = 502, res_headers = [],
                res_sent =
                  [Json (JObj [(js ''jsonrpc'', JStr (js ''2.0'')),
                               (js ''id'',
                                case body of
                                  JObj kvs \<Rightarrow>
                                    (case map_of kvs (js ''id'') of
                                       None \<Rightarrow> JNull
                                     | Some v \<Rightarrow> if v = JUndefined then JNull else v)
                                | _ \<Rightarrow> JNull),
                               (js ''error'',
                                JObj [(js ''code'', JNum (- 32603)),
                                      (js ''message'', JStr (js ''Upstream proxy error''))])])],
                res_ended = True\<rparr>"
  using assms
  by (simp add: sse_handler_def sse_try_def sse_catch_def res_json_def res_end_def
      res_set_status_def new_response_def request_id_cases)

theorem sse_fetch_failure_witness:
  "sse_handler sample_bridge (\<lambda>rq. Inl (TypeError (js ''fetch failed'')))
     (JObj [(js ''method'', JStr (js ''ping'')), (js ''id'', JNum 7)]) new_response =
   Inr \<lparr>res_status = 502, res_headers = [],
        res_sent =
          [Json (JObj [(js ''jsonrpc'', JStr (js ''2.0'')), (js ''id'', JNum 7),
                       (js ''error'',
                        JObj [(js ''code'', JNum (- 32603)),
                              (js ''message'', JStr (js ''Upstream proxy error''))])])],
        res_ended = True\<rparr>
   \<and> sse_handler sample_bridge (\<lambda>rq. Inl (TypeError (js ''fetch failed'')))
     JUndefined new_response =
   Inr \<lparr>res_status = 502, res_headers = [],
        res_sent =
          [Json (JObj [(js ''jsonrpc'', JStr (js ''2.0'')), (js ''id'', JNull),
                       (js ''error'',
                        JObj [(js ''code'', JNum (- 32603)),
                              (js ''message'', JStr (js ''Upstream proxy error''))])])],
        res_ended = True\<rparr>"
  using sse_fetch_failure [of "\<lambda>rq. Inl (TypeError (js ''fetch failed''))" sample_bridge
      "JObj [(js ''method'', JStr (js ''ping'')), (js ''id'', JNum 7)]" "TypeError (js ''fetch failed'')"]
    sse_fetch_failure [of "\<lambda>rq. Inl (TypeError (js ''fetch failed''))" sample_bridge
      JUndefined "TypeError (js ''fetch failed'')"]
  by (simp add: js_def)

section \<open>Properties of the upstream clients\<close>

lemma js_includes_append_left: "js_includes s t \<Longrightarrow> js_includes (a @ s) t"
proof (induction a)
  case Nil then show ?case by simp
next
  case (Cons x a)
  then show ?case by simp
qed

lemma js_includes_middle: "js_includes (a @ t @ b) t"
  by (rule js_includes_append_left) (rule js_includes_prefix)

lemma js_includes_middle2: "js_includes (a @ b @ c @ t @ d) t"
  using js_includes_middle [of "a @ b @ c" t d] by simp

lemma js_append [simp]: "js (a @ b) = js a @ js b"
  by (simp add: js_def)

text \<open>
  C3, as amended. For every upstream response whose status is outside 200 to 299:
  \<open>wc\<close> (variant A) raises an error whose message is the specification's
  \<open><status> <statusText> - <body>\<close>, or \<open><status> <statusText>\<close> when the captured body is
  empty or unreadable, and this message contains the digits of the status; \<open>wcGet\<close> and
  \<open>wcPut\<close> (part\_001) raise, when the body text can be read, an error whose message is
  \<open>Woo GET <url> -> <status> <body>\<close> (\<open>Woo PUT\<close> for \<open>wcPut\<close>), which also contains the
  digits of the status; none of the three returns a value.
\<close>

theorem upstream_error_messages:
  assumes "\<not> rs_ok res"
  shows "(withAuth e path = Inr url \<longrightarrow>
            wc (\<lambda>rq. Inr res) e path method body =
              Inl (Error (spec_error_message (rs_status res) (rs_statusText res) (captured_body res)))
            \<and> js_includes (spec_error_message (rs_status res) (rs_statusText res) (captured_body res))
                 (dec (rs_status res)))
       \<and> (rs_text res = Inr t \<longrightarrow>
            wcGet (\<lambda>rq. Inr res) c path qs =
              Inl (Error (js ''Woo GET '' @ (template (BASE_URL c) @ path @ (if qs \<noteq> [] then js ''?'' @ qs else []))
                          @ js '' -> '' @ dec (rs_status res) @ js '' '' @ t))
            \<and> js_includes
                 (js ''Woo GET '' @ (template (BASE_URL c) @ path @ (if qs \<noteq> [] then js ''?'' @ qs else []))
                  @ js '' -> '' @ dec (rs_status res) @ js '' '' @ t)
                 (dec (rs_status res))
            \<and> wcPut (\<lambda>rq. Inr res) c path body =
              Inl (Error (js ''Woo PUT '' @ (template (BASE_URL c) @ path)
                          @ js '' -> '' @ dec (rs_status res) @ js '' '' @ t))
            \<and> js_includes
                 (js ''Woo PUT '' @ (template (BASE_URL c) @ path)
                  @ js '' -> '' @ dec (rs_status res) @ js '' '' @ t)
                 (dec (rs_status res)))
       \<and> (\<forall>v. wc (\<lambda>rq. Inr res) e path method body \<noteq> Inr v
              \<and> wcGet (\<lambda>rq. Inr res) c path qs \<noteq> Inr v
              \<and> wcPut (\<lambda>rq. Inr res) c path body \<noteq> Inr v)"
proof -
  have a: "withAuth e path = Inr url \<Longrightarrow>
            wc (\<lambda>rq. Inr res) e path method body =
              Inl (Error (spec_error_message (rs_status res) (rs_statusText res) (captured_body res)))"
    using assms by (simp add: wc_def Let_def spec_error_message_def captured_body_def)
  have b: "js_includes (spec_error_message (rs_status res) (rs_statusText res) (captured_body res))
                 (dec (rs_status res))"
    by (simp add: spec_error_message_def js_includes_prefix)
  have c: "rs_text res = Inr t \<Longrightarrow>
            wcGet (\<lambda>rq. Inr res) c path qs =
              Inl (Error (js ''Woo GET '' @ (template (BASE_URL c) @ path @ (if qs \<noteq> [] then js ''?'' @ qs else []))
                          @ js '' -> '' @ dec (rs_status res) @ js '' '' @ t))"
    using assms by (simp add: wcGet_def Let_def)
  have d: "rs_text res = Inr t \<Longrightarrow> wcPut (\<lambda>rq. Inr res) c path body =
              Inl (Error (js ''Woo PUT '' @ (template (BASE_URL c) @ path)
                          @ js '' -> '' @ dec (rs_status res) @ js '' '' @ t))"
    using assms by (simp add: wcPut_def Let_def)
  have i: "js_includes (js v @ u @ js '' -> '' @ dec (rs_status res) @ js '' '' @ t)
             (dec (rs_status res))" for v u
    by (rule js_includes_middle2)
  have e1: "wc (\<lambda>rq. Inr res) e path method body \<noteq> Inr v" for v
    using assms by (cases "withAuth e path") (simp_all add: wc_def Let_def)
  have e2: "wcGet (\<lambda>rq. Inr res) c path qs \<noteq> Inr v" for v
    using assms by (cases "rs_text res") (simp_all add: wcGet_def Let_def)
  have e3: "wcPut (\<lambda>rq. Inr res) c path body \<noteq> Inr v" for v
    using assms by (cases "rs_text res") (simp_all add: wcPut_def Let_def)
  show ?thesis
    using a b c d i e1 e2 e3 by blast
qed

text \<open>
  C3 as stated fails for \<open>wcGet\<close>: on a 404 response with status text \<open>Not Found\<close> and body
  \<open>nope\<close> its message is not the specification's.
\<close>

theorem wcGet_message_counterexample:
  "\<not> rs_ok not_found_response
   \<and> wcGet (\<lambda>rq. Inr not_found_response) sample_config (js ''/p'') [] =
       Inl (Error (js ''Woo GET https://shop.example/p -> 404 nope''))
   \<and> js ''Woo GET https://shop.example/p -> 404 nope'' \<noteq>
       spec_error_message 404 (js ''Not Found'') (js ''nope'')"
  by (simp add: rs_ok_def not_found_response_def wcGet_def Let_def sample_config_def
      template_def spec_error_message_def dec.simps)
     (simp add: js_def)

lemma header_env_url:
  "withAuth header_env (js ''/p'') = Inr (js ''https://shop.example/wp-json/wc/v3/p'')"
proof -
  have "base header_env = js ''https://shop.example/wp-json/wc/v3''"
    by (simp add: base_def header_env_def template_def js_def)
  then show ?thesis
    by (simp add: withAuth_def header_env_mode) (simp add: js_def)
qed

theorem upstream_error_messages_witness:
  "wc (\<lambda>rq. Inr not_found_response) header_env (js ''/p'') (js ''GET'') JUndefined =
     Inl (Error (js ''404 Not Found - nope''))
   \<and> js_includes (js ''404 Not Found - nope'') (js ''404'')
   \<and> wcGet (\<lambda>rq. Inr not_found_response) sample_config (js ''/p'') [] =
     Inl (Error (js ''Woo GET https://shop.example/p -> 404 nope''))
   \<and> js_includes (js ''Woo GET https://shop.example/p -> 404 nope'') (js ''404'')
   \<and> wcPut (\<lambda>rq. Inr not_found_response) sample_config (js ''/p'') JUndefined =
     Inl (Error (js ''Woo PUT https://shop.example/p -> 404 nope''))
   \<and> js_includes (js ''Woo PUT https://shop.example/p -> 404 nope'') (js ''404'')"
proof -
  have nok: "\<not> rs_ok not_found_response"
    by (simp add: rs_ok_def not_found_response_def)
  have url: "withAuth header_env (js ''/p'') = Inr (js ''https://shop.example/wp-json/wc/v3/p'')"
    by (rule header_env_url)
  have t: "rs_text not_found_response = Inr (js ''nope'')"
    by (simp add: not_found_response_def)
  have m: "spec_error_message (rs_status not_found_response) (rs_statusText not_found_response)
             (captured_body not_found_response) = js ''404 Not Found - nope''"
    by (simp add: spec_error_message_def captured_body_def not_found_response_def dec.simps)
       (simp add: js_def)
  have d: "dec (rs_status not_found_response) = js ''404''"
    by (simp add: not_found_response_def dec.simps js_def)
  have b: "template (BASE_URL sample_config) = js ''https://shop.example''"
    by (simp add: sample_config_def template_def)
  show ?thesis
    using upstream_error_messages [OF nok, of header_env "js ''/p''"
        "js ''https://shop.example/wp-json/wc/v3/p''" "js ''GET''" JUndefined "js ''nope''"
        sample_config "[]"]
    by (simp add: url t m d b) (simp add: js_def)
qed

text \<open>
  C6, as amended. For every upstream response with a status from 200 to 299: \<open>wc\<close>
  (variant A) returns what parsing the body as JSON gives when the content type contains
  \<open>application/json\<close>, and returns \<open>null\<close> otherwise; \<open>wcGet\<close> and \<open>wcPut\<close> (part\_001)
  return what parsing the body as JSON gives whatever the content type is.
\<close>

theorem success_results:
  assumes "rs_ok res"
  shows "(withAuth e path = Inr url \<longrightarrow>
            wc (\<lambda>rq. Inr res) e path method body =
              (if indicated_json res then rs_json res else Inr JNull))
       \<and> wcGet (\<lambda>rq. Inr res) c path qs = rs_json res
       \<and> wcPut (\<lambda>rq. Inr res) c path body = rs_json res"
  using assms
  by (simp add: wc_def wcGet_def wcPut_def Let_def indicated_json_def)

theorem success_results_witness:
  "wc (\<lambda>rq. Inr (json_response (JArr []))) header_env (js ''/p'') (js ''GET'') JUndefined =
     Inr (JArr [])
   \<and> wc (\<lambda>rq. Inr plain_response) header_env (js ''/p'') (js ''GET'') JUndefined = Inr JNull
   \<and> wcGet (\<lambda>rq. Inr (json_response (JArr []))) sample_config (js ''/p'') [] = Inr (JArr [])
   \<and> wcPut (\<lambda>rq. Inr (json_response (JArr []))) sample_config (js ''/p'') JUndefined = Inr (JArr [])"
proof -
  have ok1: "rs_ok (json_response (JArr []))" and ok2: "rs_ok plain_response"
    by (simp_all add: rs_ok_def json_response_def plain_response_def)
  have url: "withAuth header_env (js ''/p'') = Inr (js ''https://shop.example/wp-json/wc/v3/p'')"
    by (rule header_env_url)
  have i1: "indicated_json (json_response (JArr []))"
    by (simp add: indicated_json_def json_response_def js_def)
  have i2: "\<not> indicated_json plain_response"
    by (simp add: indicated_json_def plain_response_def js_def)
  have j: "rs_json (json_response (JArr [])) = Inr (JArr [])"
    by (simp add: json_response_def)
  show ?thesis
    using success_results [OF ok1, of header_env "js ''/p''"
        "js ''https://shop.example/wp-json/wc/v3/p''" "js ''GET''" JUndefined sample_config "[]"]
      success_results [OF ok2, of header_env "js ''/p''"
        "js ''https://shop.example/wp-json/wc/v3/p''" "js ''GET''" JUndefined sample_config "[]"]
    by (simp add: url i1 i2 j)
qed

text \<open>
  C6 as stated fails for \<open>wcGet\<close>: on a 200 response of type \<open>text/plain\<close> whose body is not
  JSON it throws the parser's error instead of returning \<open>null\<close>.
\<close>

theorem wcGet_non_json_counterexample:
  "rs_ok plain_response \<and> \<not> indicated_json plain_response
   \<and> wcGet (\<lambda>rq. Inr plain_response) sample_config (js ''/p'') [] =
       Inl (SyntaxError (js ''Unexpected token''))
   \<and> wcGet (\<lambda>rq. Inr plain_response) sample_config (js ''/p'') [] \<noteq> Inr JNull"
  by (simp add: wcGet_def Let_def rs_ok_def indicated_json_def plain_response_def js_def)

text \<open>
  C8, as amended. When \<open>BASE_URL\<close>, \<open>WOO_CONSUMER_KEY\<close> or \<open>WOO_CONSUMER_SECRET\<close> is absent,
  part\_001 writes one line that names the three variables and exits with code 1 without
  reaching \<open>app.listen\<close>. Variant A makes no check: whatever the environment, it reaches
  \<open>app.listen\<close> with the base URL built from \<open>WC_URL\<close> as it is.
\<close>

theorem startup_woo_missing:
  assumes "e ''BASE_URL'' = None \<or> e ''WOO_CONSUMER_KEY'' = None \<or> e ''WOO_CONSUMER_SECRET'' = None"
  shows "startup_woo e =
           Exited 1 [js ''Missing env: BASE_URL, WOO_CONSUMER_KEY, WOO_CONSUMER_SECRET'']
         \<and> startup_variantA e' = Serving (base e')"
  using assms
  by (auto simp: startup_woo_def read_config_def truthy_str_def Let_def startup_variantA_def)

theorem startup_woo_missing_witness:
  "startup_woo no_secret_env =
     Exited 1 [js ''Missing env: BASE_URL, WOO_CONSUMER_KEY, WOO_CONSUMER_SECRET'']
   \<and> startup_variantA no_secret_env = Serving (js ''undefined/wp-json/wc/v3'')"
proof -
  have "no_secret_env ''WOO_CONSUMER_SECRET'' = None"
    by (simp add: no_secret_env_def)
  then have "no_secret_env ''BASE_URL'' = None \<or> no_secret_env ''WOO_CONSUMER_KEY'' = None
      \<or> no_secret_env ''WOO_CONSUMER_SECRET'' = None"
    by blast
  moreover have "base no_secret_env = js ''undefined/wp-json/wc/v3''"
    by (simp add: base_def no_secret_env_def template_def js_def)
  ultimately show ?thesis
    using startup_woo_missing [of no_secret_env no_secret_env] by simp
qed

text \<open>
  C8 as stated fails for variant A: with none of its variables set it does not exit, it
  reaches \<open>app.listen\<close> with the base URL \<open>undefined/wp-json/wc/v3\<close>.
\<close>

theorem startup_variantA_counterexample:
  "startup_variantA (\<lambda>x. None) = Serving (js ''undefined/wp-json/wc/v3'')"
  by (simp add: startup_variantA_def base_def template_def js_def)

section \<open>Properties of the routing\<close>









lemma probe_fields [simp]:
  "rq_method (probe m p) = js m" "rq_path (probe m p) = js p" "rq_body (probe m p) = NoBody"
  by (simp_all add: probe_def)









lemma bad_json_probe_fields [simp]:
  "rq_method (bad_json_probe m p) = js m" "rq_path (bad_json_probe m p) = js p"
  "rq_body (bad_json_probe m p) = Rejected 400"
  by (simp_all add: bad_json_probe_def)


end
